theory Spec2Isabelle
  imports Main "HOL-Library.Word"
begin

section \<open>The header \<^verbatim>\<open>Assets/Plugins/iOS/HealthKitBridge.h\<close> as data\<close>

text \<open>
  The repository's one source file is a declaration-only C header: seven function
  prototypes inside an \<^verbatim>\<open>extern "C"\<close> block, each under a documentation comment.
  It has no function body. The embedding therefore has two layers:
  \<^item> the prototypes and what their comments say about callbacks, transcribed as data
    (this section);
  \<^item> the bodies of the functions, none of which is in the header, written from the
    spec and from the header's comments (a later section).
\<close>

subsection \<open>C types and argument values\<close>

text \<open>
  The prototypes use \<^verbatim>\<open>void\<close>, \<^verbatim>\<open>int\<close> and \<^verbatim>\<open>long long\<close> only. Pointer types are part
  of the type language, so that "no parameter is a pointer" is a statement about the
  header and not about the datatype. On every iOS target \<^verbatim>\<open>int\<close> is 32 bits wide and
  \<^verbatim>\<open>long long\<close> is 64 bits wide, both two's complement.
\<close>

datatype c_type = CVoid | CInt | CLongLong | CPtr c_type

type_synonym c_int = "32 word"
type_synonym long_long = "64 word"

datatype c_value = VInt c_int | VLongLong long_long | VPtr c_type nat

fun type_of_value :: "c_value \<Rightarrow> c_type" where
  "type_of_value (VInt _) = CInt"
| "type_of_value (VLongLong _) = CLongLong"
| "type_of_value (VPtr t _) = CPtr t"

fun is_pointer :: "c_type \<Rightarrow> bool" where
  "is_pointer (CPtr _) = True"
| "is_pointer _ = False"

subsection \<open>Prototypes\<close>

text \<open>
  \<open>sends\<close> is the comment line
  \<^verbatim>\<open>Result is sent via UnitySendMessage to "<receiver>" with method "<method>"\<close>
  of a prototype; \<open>None\<close> when its comment has no such line.
\<close>

record callback =
  receiver_name :: string
  method_name :: string

record decl =
  name :: string
  ret :: c_type
  params :: "(string \<times> c_type) list"
  sends :: "callback option"

text \<open>
  \<^verbatim>\<open>
  /** Check if HealthKit is available on this device
   *  @return 1 if available, 0 if not */
  int HealthKit_IsAvailable(void);
  \<close>
\<close>

definition HealthKit_IsAvailable_decl :: decl where
  "HealthKit_IsAvailable_decl =
     \<lparr>name = ''HealthKit_IsAvailable'', ret = CInt, params = [], sends = None\<rparr>"

text \<open>
  \<^verbatim>\<open>
  /** Check if step count permission has been granted
   *  @return 1 if authorized, 0 if not, -1 if not determined */
  int HealthKit_IsAuthorized(void);
  \<close>
\<close>

definition HealthKit_IsAuthorized_decl :: decl where
  "HealthKit_IsAuthorized_decl =
     \<lparr>name = ''HealthKit_IsAuthorized'', ret = CInt, params = [], sends = None\<rparr>"

text \<open>
  \<^verbatim>\<open>
  /** Request authorization to read step count data
   *  Result is sent via UnitySendMessage to "HealthKitReceiver"
   *  with method "OnAuthorizationResult" */
  void HealthKit_RequestAuthorization(void);
  \<close>
\<close>

definition HealthKit_RequestAuthorization_decl :: decl where
  "HealthKit_RequestAuthorization_decl =
     \<lparr>name = ''HealthKit_RequestAuthorization'', ret = CVoid, params = [],
      sends = Some \<lparr>receiver_name = ''HealthKitReceiver'', method_name = ''OnAuthorizationResult''\<rparr>\<rparr>"

text \<open>
  \<^verbatim>\<open>
  /** Query steps since a given timestamp
   *  @param timestampMillis Milliseconds since epoch (UTC)
   *  Result is sent via UnitySendMessage to "HealthKitReceiver"
   *  with method "OnStepsReceived" */
  void HealthKit_GetStepsSince(long long timestampMillis);
  \<close>
\<close>

definition HealthKit_GetStepsSince_decl :: decl where
  "HealthKit_GetStepsSince_decl =
     \<lparr>name = ''HealthKit_GetStepsSince'', ret = CVoid,
      params = [(''timestampMillis'', CLongLong)],
      sends = Some \<lparr>receiver_name = ''HealthKitReceiver'', method_name = ''OnStepsReceived''\<rparr>\<rparr>"

text \<open>
  \<^verbatim>\<open>
  /** Query steps for a date range
   *  @param startMillis Start time in milliseconds since epoch (UTC)
   *  @param endMillis End time in milliseconds since epoch (UTC)
   *  Result is sent via UnitySendMessage to "HealthKitReceiver"
   *  with method "OnStepsReceived" */
  void HealthKit_GetStepsForRange(long long startMillis, long long endMillis);
  \<close>
\<close>

definition HealthKit_GetStepsForRange_decl :: decl where
  "HealthKit_GetStepsForRange_decl =
     \<lparr>name = ''HealthKit_GetStepsForRange'', ret = CVoid,
      params = [(''startMillis'', CLongLong), (''endMillis'', CLongLong)],
      sends = Some \<lparr>receiver_name = ''HealthKitReceiver'', method_name = ''OnStepsReceived''\<rparr>\<rparr>"

text \<open>
  \<^verbatim>\<open>
  /** Query steps for today
   *  Result is sent via UnitySendMessage to "HealthKitReceiver"
   *  with method "OnStepsReceived" */
  void HealthKit_GetStepsToday(void);
  \<close>
\<close>

definition HealthKit_GetStepsToday_decl :: decl where
  "HealthKit_GetStepsToday_decl =
     \<lparr>name = ''HealthKit_GetStepsToday'', ret = CVoid, params = [],
      sends = Some \<lparr>receiver_name = ''HealthKitReceiver'', method_name = ''OnStepsReceived''\<rparr>\<rparr>"

text \<open>
  \<^verbatim>\<open>
  /** Open the iOS Health app */
  void HealthKit_OpenHealthApp(void);
  \<close>
\<close>

definition HealthKit_OpenHealthApp_decl :: decl where
  "HealthKit_OpenHealthApp_decl =
     \<lparr>name = ''HealthKit_OpenHealthApp'', ret = CVoid, params = [], sends = None\<rparr>"

text \<open>The header: its prototypes in the order they are declared.\<close>

definition HealthKitBridge_h :: "decl list" where
  "HealthKitBridge_h =
     [HealthKit_IsAvailable_decl, HealthKit_IsAuthorized_decl,
      HealthKit_RequestAuthorization_decl, HealthKit_GetStepsSince_decl,
      HealthKit_GetStepsForRange_decl, HealthKit_GetStepsToday_decl,
      HealthKit_OpenHealthApp_decl]"

subsection \<open>Calls against a prototype\<close>

text \<open>
  A call type-checks against a prototype when its arguments have, position by position,
  the declared parameter types. Nothing else in the header restricts a call: no prototype
  carries an attribute, and no comment states a condition on an argument.
\<close>

definition param_types :: "decl \<Rightarrow> c_type list" where
  "param_types d = map snd (params d)"

definition accepts :: "decl \<Rightarrow> c_value list \<Rightarrow> bool" where
  "accepts d args = (map type_of_value args = param_types d)"

text \<open>The signed reading of a \<^verbatim>\<open>long long\<close> argument: whole milliseconds since the epoch.\<close>

definition millis :: "long_long \<Rightarrow> int" where
  "millis w = sint w"

section \<open>The interface table of the spec\<close>

text \<open>
  Section 6 of the spec lists, per operation, its inputs and its output. The table below
  follows the spec's words: an output "1/0" or "1 / 0 / -1" is an \<^verbatim>\<open>int\<close> flag, "none" is
  no input or no return value, and a "64-bit millisecond timestamp" is a 64-bit integer.
  The rows are keyed by the C name of the operation the row describes.
\<close>

datatype spec_type = Flag_Int | No_Value | Millis_64 | Other

definition interface_table :: "(string \<times> spec_type list \<times> spec_type) list" where
  "interface_table =
     [(''HealthKit_IsAvailable'', [], Flag_Int),
      (''HealthKit_IsAuthorized'', [], Flag_Int),
      (''HealthKit_RequestAuthorization'', [], No_Value),
      (''HealthKit_GetStepsSince'', [Millis_64], No_Value),
      (''HealthKit_GetStepsForRange'', [Millis_64, Millis_64], No_Value),
      (''HealthKit_GetStepsToday'', [], No_Value),
      (''HealthKit_OpenHealthApp'', [], No_Value)]"

fun spec_type_of :: "c_type \<Rightarrow> spec_type" where
  "spec_type_of CVoid = No_Value"
| "spec_type_of CInt = Flag_Int"
| "spec_type_of CLongLong = Millis_64"
| "spec_type_of (CPtr _) = Other"

definition signature_row :: "decl \<Rightarrow> string \<times> spec_type list \<times> spec_type" where
  "signature_row d = (name d, map spec_type_of (param_types d), spec_type_of (ret d))"

text \<open>The three step queries, in the order they are declared.\<close>

definition step_queries :: "decl list" where
  "step_queries =
     [HealthKit_GetStepsSince_decl, HealthKit_GetStepsForRange_decl,
      HealthKit_GetStepsToday_decl]"

section \<open>The bodies behind the prototypes\<close>

text \<open>
  The bodies of \<^verbatim>\<open>HealthKit_IsAvailable\<close> and \<^verbatim>\<open>HealthKit_IsAuthorized\<close> are not part of
  the header. What they read is platform state: whether HealthKit exists on the device,
  and where the step-count permission stands. \<open>sent\<close> is the log of messages handed
  to \<^verbatim>\<open>UnitySendMessage\<close> so far, the one channel by which the bridge reaches the host.
  \<open>in_flight\<close> holds the requests a call has started and the platform has not yet
  answered; \<open>health_app_open\<close> says whether the Health app has been brought up.
\<close>

datatype authorization = Authorized | Not_Authorized | Not_Determined

datatype request =
    Authorization_Request
  | Steps_Since long_long
  | Steps_For_Range long_long long_long
  | Steps_Today

record bridge_state =
  healthkit_available :: bool
  step_permission :: authorization
  sent :: "callback list"
  in_flight :: "request list"
  health_app_open :: bool

text \<open>
  Modelled from the spec: the body of \<^verbatim>\<open>HealthKit_IsAvailable\<close> is missing from the
  sources (the header only declares it). Spec, section 6: "availability check | none |
  1/0 | synchronous"; section 4: "returns a tri-state or boolean flag synchronously; no
  side effects beyond querying platform state". The header's comment agrees:
  \<^verbatim>\<open>@return 1 if available, 0 if not\<close>.
\<close>

definition HealthKit_IsAvailable :: "bridge_state \<Rightarrow> c_int \<times> bridge_state" where
  "HealthKit_IsAvailable s = (if healthkit_available s then 1 else 0, s)"

text \<open>
  Modelled from the spec: the body of \<^verbatim>\<open>HealthKit_IsAuthorized\<close> is missing from the
  sources (the header only declares it). Spec, section 6: "authorization status check |
  none | 1 authorized / 0 not / -1 undetermined | synchronous"; section 4 as above. The
  header's comment agrees: \<^verbatim>\<open>@return 1 if authorized, 0 if not, -1 if not determined\<close>.
\<close>

definition HealthKit_IsAuthorized :: "bridge_state \<Rightarrow> c_int \<times> bridge_state" where
  "HealthKit_IsAuthorized s =
     (case step_permission s of
        Authorized \<Rightarrow> 1
      | Not_Authorized \<Rightarrow> 0
      | Not_Determined \<Rightarrow> - 1,
      s)"

subsection \<open>The asynchronous operations\<close>

text \<open>The prototype whose call starts a request.\<close>

fun started_by :: "request \<Rightarrow> decl" where
  "started_by Authorization_Request = HealthKit_RequestAuthorization_decl"
| "started_by (Steps_Since _) = HealthKit_GetStepsSince_decl"
| "started_by (Steps_For_Range _ _) = HealthKit_GetStepsForRange_decl"
| "started_by Steps_Today = HealthKit_GetStepsToday_decl"

text \<open>
  Modelled from the spec: the code that reports a finished request to the host is
  missing from the sources. Spec, section 4: the notification goes "to a fixed receiver
  name/method". The spec gives neither name; they are taken from the comment of the
  prototype that started the request (\<open>sends\<close>), and do not depend on the state, on
  the arguments or on the result.
\<close>

definition notification :: "request \<Rightarrow> callback list" where
  "notification r = (case sends (started_by r) of None \<Rightarrow> [] | Some c \<Rightarrow> [c])"

text \<open>
  Modelled from the spec: the body of \<^verbatim>\<open>HealthKit_RequestAuthorization\<close> is missing
  from the sources. Spec, section 4: "synchronous call that triggers an asynchronous,
  out-of-band notification to a fixed receiver name/method once the platform UI flow
  completes; no return value". The call itself only starts the request.
\<close>

definition HealthKit_RequestAuthorization :: "bridge_state \<Rightarrow> bridge_state" where
  "HealthKit_RequestAuthorization s = s\<lparr>in_flight := in_flight s @ [Authorization_Request]\<rparr>"

text \<open>
  Modelled from the spec: the bodies of \<^verbatim>\<open>HealthKit_GetStepsSince\<close>,
  \<^verbatim>\<open>HealthKit_GetStepsForRange\<close> and \<^verbatim>\<open>HealthKit_GetStepsToday\<close> are missing from the
  sources. Spec, section 4: "synchronous calls that trigger an asynchronous out-of-band
  notification with results; no return value; timestamps are caller-supplied
  milliseconds-since-epoch in UTC with no validation contract specified". Each call
  starts a query with the arguments as given.
\<close>

definition HealthKit_GetStepsSince :: "long_long \<Rightarrow> bridge_state \<Rightarrow> bridge_state" where
  "HealthKit_GetStepsSince timestampMillis s =
     s\<lparr>in_flight := in_flight s @ [Steps_Since timestampMillis]\<rparr>"

definition HealthKit_GetStepsForRange ::
  "long_long \<Rightarrow> long_long \<Rightarrow> bridge_state \<Rightarrow> bridge_state" where
  "HealthKit_GetStepsForRange startMillis endMillis s =
     s\<lparr>in_flight := in_flight s @ [Steps_For_Range startMillis endMillis]\<rparr>"

definition HealthKit_GetStepsToday :: "bridge_state \<Rightarrow> bridge_state" where
  "HealthKit_GetStepsToday s = s\<lparr>in_flight := in_flight s @ [Steps_Today]\<rparr>"

text \<open>
  Modelled from the spec: the body of \<^verbatim>\<open>HealthKit_OpenHealthApp\<close> is missing from the
  sources. Spec, section 4: "opens a platform settings surface; no return value, no
  callback".
\<close>

definition HealthKit_OpenHealthApp :: "bridge_state \<Rightarrow> bridge_state" where
  "HealthKit_OpenHealthApp s = s\<lparr>health_app_open := True\<rparr>"

text \<open>
  Modelled from the spec: the asynchronous half of the bodies is missing from the
  sources. The platform finishes the request at position \<open>i\<close> of those in flight, in
  any order (spec, section 5: no ordering between queries is declared); the bridge then
  hands its notification to the host and the request is over. With no request at
  position \<open>i\<close> nothing happens.
\<close>

definition complete :: "nat \<Rightarrow> bridge_state \<Rightarrow> bridge_state" where
  "complete i s =
     (if i < length (in_flight s)
      then s\<lparr>in_flight := take i (in_flight s) @ drop (Suc i) (in_flight s),
             sent := sent s @ notification (in_flight s ! i)\<rparr>
      else s)"

text \<open>A run of the platform: the completions \<open>js\<close>, one after the other.\<close>

fun completions :: "nat list \<Rightarrow> bridge_state \<Rightarrow> bridge_state" where
  "completions [] s = s"
| "completions (j # js) s = completions js (complete j s)"


section \<open>Theorems\<close>

lemmas decl_defs =
  HealthKit_IsAvailable_decl_def HealthKit_IsAuthorized_decl_def
  HealthKit_RequestAuthorization_decl_def HealthKit_GetStepsSince_decl_def
  HealthKit_GetStepsForRange_decl_def HealthKit_GetStepsToday_decl_def
  HealthKit_OpenHealthApp_decl_def

text \<open>
  C1. Each of the seven declared functions has the argument types, the arity and the
  return type of its row in the spec's interface table: the rows computed from the
  header's prototypes are the table, in the same order, and there are seven of them
  under seven different names.
\<close>

theorem header_matches_interface_table:
  "map signature_row HealthKitBridge_h = interface_table
   \<and> length HealthKitBridge_h = 7
   \<and> distinct (map name HealthKitBridge_h)"
  by (simp add: HealthKitBridge_h_def interface_table_def signature_row_def
      param_types_def decl_defs)

text \<open>
  C2. The authorization status check takes no argument and returns an \<^verbatim>\<open>int\<close>; read as
  a signed number the result is 1 when the step-count permission is authorized, 0 when
  it is not, and -1 when it is not determined, and it is never anything else. (The
  prototype is the header's; the body is the one modelled above.)
\<close>

theorem is_authorized_tristate:
  "accepts HealthKit_IsAuthorized_decl []
   \<and> ret HealthKit_IsAuthorized_decl = CInt
   \<and> sint (fst (HealthKit_IsAuthorized s)) =
       (case step_permission s of
          Authorized \<Rightarrow> 1 | Not_Authorized \<Rightarrow> 0 | Not_Determined \<Rightarrow> - 1)
   \<and> sint (fst (HealthKit_IsAuthorized s)) \<in> {1, 0, - 1}"
  by (cases "step_permission s")
     (simp_all add: HealthKit_IsAuthorized_def accepts_def param_types_def
        HealthKit_IsAuthorized_decl_def)

text \<open>
  C3. The availability check takes no argument and returns an \<^verbatim>\<open>int\<close>: 1 when HealthKit
  is available on the device, 0 when it is not, and never anything else. (The prototype
  is the header's; the body is the one modelled above.)
\<close>

theorem is_available_flag:
  "accepts HealthKit_IsAvailable_decl []
   \<and> ret HealthKit_IsAvailable_decl = CInt
   \<and> sint (fst (HealthKit_IsAvailable s)) = (if healthkit_available s then 1 else 0)
   \<and> sint (fst (HealthKit_IsAvailable s)) \<in> {1, 0}"
  by (simp add: HealthKit_IsAvailable_def accepts_def param_types_def
        HealthKit_IsAvailable_decl_def)

text \<open>What each kind of request reports to, and what a completion does to the state.\<close>

lemma notification_simps:
  "notification Authorization_Request =
     [\<lparr>receiver_name = ''HealthKitReceiver'', method_name = ''OnAuthorizationResult''\<rparr>]"
  "notification (Steps_Since t) =
     [\<lparr>receiver_name = ''HealthKitReceiver'', method_name = ''OnStepsReceived''\<rparr>]"
  "notification (Steps_For_Range a b) =
     [\<lparr>receiver_name = ''HealthKitReceiver'', method_name = ''OnStepsReceived''\<rparr>]"
  "notification Steps_Today =
     [\<lparr>receiver_name = ''HealthKitReceiver'', method_name = ''OnStepsReceived''\<rparr>]"
  by (simp_all add: notification_def decl_defs)

lemma complete_last:
  "complete (length (in_flight s)) (s\<lparr>in_flight := in_flight s @ [r]\<rparr>) =
     s\<lparr>sent := sent s @ notification r\<rparr>"
  by (simp add: complete_def)

lemma complete_health_app_open:
  "complete i (s\<lparr>health_app_open := b\<rparr>) = (complete i s)\<lparr>health_app_open := b\<rparr>"
  by (simp add: complete_def)

lemma completions_health_app_open:
  "completions js (s\<lparr>health_app_open := b\<rparr>) = (completions js s)\<lparr>health_app_open := b\<rparr>"
  by (induction js arbitrary: s) (simp_all add: complete_health_app_open)




text \<open>Which argument lists the two timestamp queries take: any 64-bit values, and no others.\<close>

lemma type_of_value_long_long:
  "(type_of_value v = CLongLong) = (\<exists>w. v = VLongLong w)"
  by (cases v) simp_all

lemma accepts_range_iff:
  "accepts HealthKit_GetStepsForRange_decl args =
     (\<exists>s e. args = [VLongLong s, VLongLong e])"
  by (auto simp: accepts_def param_types_def HealthKit_GetStepsForRange_decl_def
        map_eq_Cons_conv type_of_value_long_long)

lemma accepts_since_iff:
  "accepts HealthKit_GetStepsSince_decl args = (\<exists>t. args = [VLongLong t])"
  by (auto simp: accepts_def param_types_def HealthKit_GetStepsSince_decl_def
        map_eq_Cons_conv type_of_value_long_long)

text \<open>
  C6. The range query takes every pair of 64-bit timestamps: the prototype's only
  condition on a call is the type of its two arguments, so the argument lists it takes
  are exactly the pairs of 64-bit values, a pair whose start lies after its end (2000,
  1000) among them, and its return type is \<^verbatim>\<open>void\<close> whatever the pair.
\<close>

theorem range_accepts_every_pair:
  "accepts HealthKit_GetStepsForRange_decl [VLongLong s, VLongLong e]
   \<and> ret HealthKit_GetStepsForRange_decl = CVoid
   \<and> accepts HealthKit_GetStepsForRange_decl args =
       (\<exists>s' e'. args = [VLongLong s', VLongLong e'])
   \<and> millis 1000 < millis 2000
   \<and> accepts HealthKit_GetStepsForRange_decl [VLongLong 2000, VLongLong 1000]"
proof -
  have "ret HealthKit_GetStepsForRange_decl = CVoid"
    by (simp add: HealthKit_GetStepsForRange_decl_def)
  moreover have "millis 1000 < millis 2000"
    by (simp add: millis_def)
  ultimately show ?thesis
    using accepts_range_iff by blast
qed

text \<open>
  C7. Neither status check has a side effect: each returns the state it was called in,
  so in particular the log of messages sent to the host is as before, and the header
  names no callback for either. (The bodies are the ones modelled above.)
\<close>

theorem status_checks_change_nothing:
  "snd (HealthKit_IsAvailable s) = s
   \<and> snd (HealthKit_IsAuthorized s) = s
   \<and> sent (snd (HealthKit_IsAvailable s)) = sent s
   \<and> sent (snd (HealthKit_IsAuthorized s)) = sent s
   \<and> sends HealthKit_IsAvailable_decl = None
   \<and> sends HealthKit_IsAuthorized_decl = None"
  by (simp add: HealthKit_IsAvailable_def HealthKit_IsAuthorized_def
        HealthKit_IsAvailable_decl_def HealthKit_IsAuthorized_decl_def)

text \<open>
  C8. The settings operation is declared with no parameter and return type \<^verbatim>\<open>void\<close>.
  The call sends nothing and starts no request, and no later run of the platform sends
  anything on its account: after any completions the log of messages is the one the
  same completions give without the call. A completed authorization request or step
  query, in contrast, does add a message. (The prototype is the header's; the bodies
  are the ones modelled above.)
\<close>

theorem open_health_app_never_delivers:
  "params HealthKit_OpenHealthApp_decl = []
   \<and> ret HealthKit_OpenHealthApp_decl = CVoid
   \<and> sent (HealthKit_OpenHealthApp s) = sent s
   \<and> in_flight (HealthKit_OpenHealthApp s) = in_flight s
   \<and> sent (completions js (HealthKit_OpenHealthApp s)) = sent (completions js s)
   \<and> sent (complete (length (in_flight s)) (HealthKit_RequestAuthorization s)) \<noteq> sent s
   \<and> sent (complete (length (in_flight s)) (HealthKit_GetStepsSince t s)) \<noteq> sent s
   \<and> sent (complete (length (in_flight s)) (HealthKit_GetStepsForRange a b s)) \<noteq> sent s
   \<and> sent (complete (length (in_flight s)) (HealthKit_GetStepsToday s)) \<noteq> sent s"
  by (simp add: HealthKit_OpenHealthApp_def completions_health_app_open
        HealthKit_RequestAuthorization_def HealthKit_GetStepsSince_def
        HealthKit_GetStepsForRange_def HealthKit_GetStepsToday_def
        complete_last notification_simps HealthKit_OpenHealthApp_decl_def)

text \<open>The signed reading of a 64-bit argument: its range, and the value that reads as \<open>v\<close>.\<close>

lemma millis_bounds: "- (2 ^ 63) \<le> millis w \<and> millis w < 2 ^ 63"
  using sint_ge [of w] sint_lt [of w] by (simp add: millis_def)

lemma millis_word_of_int:
  "- (2 ^ 63) \<le> v \<Longrightarrow> v < 2 ^ 63 \<Longrightarrow> millis (word_of_int v) = v"
  unfolding millis_def by (simp add: signed_of_int signed_take_bit_int_eq_self)

text \<open>
  C9. The timestamp parameters are signed 64-bit integers: the only parameters of the
  header are the one of the steps-since query and the two of the range query, all
  \<^verbatim>\<open>long long\<close>; every integer \<open>v\<close> from \<open>-2^63\<close> to \<open>2^63 - 1\<close>, negative ones
  included, is the reading of a 64-bit value that both queries take, in either position
  of the range query; and every argument reads as a whole number of milliseconds in that
  range.
\<close>

theorem timestamps_signed_64:
  assumes "- (2 ^ 63) \<le> v" and "v < 2 ^ 63"
  shows "millis (word_of_int v) = v
    \<and> accepts HealthKit_GetStepsSince_decl [VLongLong (word_of_int v)]
    \<and> accepts HealthKit_GetStepsForRange_decl [VLongLong (word_of_int v), VLongLong w]
    \<and> accepts HealthKit_GetStepsForRange_decl [VLongLong w, VLongLong (word_of_int v)]
    \<and> - (2 ^ 63) \<le> millis w \<and> millis w < 2 ^ 63
    \<and> map param_types HealthKitBridge_h =
        [[], [], [], [CLongLong], [CLongLong, CLongLong], [], []]"
proof -
  have "map param_types HealthKitBridge_h =
        [[], [], [], [CLongLong], [CLongLong, CLongLong], [], []]"
    by (simp add: HealthKitBridge_h_def param_types_def decl_defs)
  then show ?thesis
    using millis_word_of_int [OF assms] millis_bounds [of w]
      accepts_since_iff accepts_range_iff
    by blast
qed

text \<open>The timestamp -1, one millisecond before the epoch.\<close>

theorem timestamps_signed_64_witness:
  "- (2 ^ 63) \<le> (- 1 :: int) \<and> (- 1 :: int) < 2 ^ 63
   \<and> millis (- 1) = - 1
   \<and> accepts HealthKit_GetStepsSince_decl [VLongLong (- 1)]
   \<and> accepts HealthKit_GetStepsForRange_decl [VLongLong (- 1), VLongLong 0]"
  using timestamps_signed_64 [of "- 1" 0] by simp

text \<open>
  C10. No prototype has a pointer among its parameter types or as its return type; the
  functions that return a value are the two status checks, both \<^verbatim>\<open>int\<close>; and each step
  query returns \<^verbatim>\<open>void\<close> and names a callback for its result.
\<close>

theorem no_pointer_no_data_return:
  "list_all (\<lambda>d. list_all (\<lambda>t. \<not> is_pointer t) (ret d # param_types d)) HealthKitBridge_h
   \<and> map name (filter (\<lambda>d. ret d \<noteq> CVoid) HealthKitBridge_h) =
       [''HealthKit_IsAvailable'', ''HealthKit_IsAuthorized'']
   \<and> map ret (filter (\<lambda>d. ret d \<noteq> CVoid) HealthKitBridge_h) = [CInt, CInt]
   \<and> list_all (\<lambda>d. ret d = CVoid \<and> sends d \<noteq> None) step_queries"
  by (simp add: HealthKitBridge_h_def step_queries_def param_types_def decl_defs)

end
